theory Spec2Isabelle
  imports
    Complex_Main
    "HOL-Library.Char_ord"
    "HOL-Library.List_Lexorder"
    "HOL-Library.Log_Nat"
    "HOL-Library.Product_Lexorder"
    "HOL-Library.Sublist"
begin

section \<open>Vehicle registration dashboard: data model\<close>

text \<open>
  The program is \<^verbatim>\<open>src/app.py\<close>: \<^verbatim>\<open>load_data\<close> reads a table of registration
  records (or synthesises one), and \<^verbatim>\<open>main\<close> filters it and derives metrics and three
  grouped tables.

  A calendar date is the triple (year, month, day); the lexicographic order on triples is
  the chronological order. Dates have day resolution, as the records of the generator and
  of the persisted file have. A data frame is the list of its rows, in index order; a
  column is the list of one field over the rows. Strings are compared by code point.
  The column \<^verbatim>\<open>registrations\<close> holds integers.
\<close>

type_synonym date = "int \<times> int \<times> int"

definition date_year :: "date \<Rightarrow> int" where
  "date_year d = fst d"

definition date_month :: "date \<Rightarrow> int" where
  "date_month d = fst (snd d)"

record row =
  date :: date
  year :: int
  quarter :: string
  month :: int
  category :: string
  manufacturer :: string
  registrations :: int

type_synonym dataframe = "row list"

section \<open>Filtering (lines 78 to 83)\<close>

text \<open>
  \<^verbatim>\<open>df[m1 & m2 & m3 & m4]\<close>: each comparison yields a boolean column, \<^verbatim>\<open>&\<close> combines two
  boolean columns position by position, and indexing by a boolean column keeps the rows
  whose flag is set.
\<close>

definition col_ge :: "'a::linorder list \<Rightarrow> 'a \<Rightarrow> bool list" where
  "col_ge col v = map (\<lambda>x. v \<le> x) col"

definition col_le :: "'a::linorder list \<Rightarrow> 'a \<Rightarrow> bool list" where
  "col_le col v = map (\<lambda>x. x \<le> v) col"

definition isin :: "'a list \<Rightarrow> 'a list \<Rightarrow> bool list" where
  "isin col vals = map (\<lambda>x. List.member vals x) col"

definition mask_and :: "bool list \<Rightarrow> bool list \<Rightarrow> bool list" where
  "mask_and a b = map (\<lambda>(p, q). p \<and> q) (zip a b)"

definition boolean_index :: "'a list \<Rightarrow> bool list \<Rightarrow> 'a list" where
  "boolean_index df flags = map fst (filter snd (zip df flags))"

definition filtered_df :: "dataframe \<Rightarrow> date \<times> date \<Rightarrow> string list \<Rightarrow> string list \<Rightarrow> dataframe" where
  "filtered_df df date_range categories manufacturers =
     boolean_index df
       (mask_and
         (mask_and
           (mask_and (col_ge (map date df) (fst date_range))
                     (col_le (map date df) (snd date_range)))
           (isin (map category df) categories))
         (isin (map manufacturer df) manufacturers))"

text \<open>The predicate of the specification's filter, for comparison with the masks.\<close>

definition keeps :: "date \<times> date \<Rightarrow> string list \<Rightarrow> string list \<Rightarrow> row \<Rightarrow> bool" where
  "keeps date_range categories manufacturers r =
     (fst date_range \<le> date r \<and> date r \<le> snd date_range \<and>
      category r \<in> set categories \<and> manufacturer r \<in> set manufacturers)"

section \<open>Floating-point results\<close>

text \<open>
  The floats of the program are IEEE 754 binary64 numbers. A finite float is modelled by
  the real number it denotes, and every operation returns the exact result rounded to the
  nearest float, ties to the even significand: 53 significant bits, exponents from -1022
  to 1023, and below the exponent -1022 the fixed spacing \<open>2 ^ -1074\<close> (gradual underflow).
  \<open>pow2 e\<close> is the power of two with an integer exponent, \<open>ilog2 x\<close> the floor of the
  binary logarithm of a positive \<open>x\<close>, \<open>quantum x\<close> the spacing of the floats around \<open>x\<close>,
  and \<open>round64 x\<close> the multiple of that spacing nearest to \<open>x\<close>.
\<close>

definition pow2 :: "int \<Rightarrow> real" where
  "pow2 e = (if 0 \<le> e then 2 ^ nat e else 1 / 2 ^ nat (- e))"

definition ilog2 :: "real \<Rightarrow> int" where
  "ilog2 x = (if 1 \<le> x then bitlen \<lfloor>x\<rfloor> - 1 else - bitlen (\<lceil>1 / x\<rceil> - 1))"

definition round_half_even :: "real \<Rightarrow> int" where
  "round_half_even x =
     (let n = \<lfloor>x\<rfloor>; r = x - real_of_int n
      in if r < 1 / 2 then n else if 1 / 2 < r then n + 1 else if even n then n else n + 1)"

definition quantum :: "real \<Rightarrow> real" where
  "quantum x = pow2 (max (- 1022) (ilog2 \<bar>x\<bar>) - 52)"

definition round64 :: "real \<Rightarrow> real" where
  "round64 x = (if x = 0 then 0 else real_of_int (round_half_even (x / quantum x)) * quantum x)"

text \<open>
  Divisions in \<^verbatim>\<open>main\<close> are NumPy and pandas divisions of 64-bit floats: they never raise;
  a zero divisor gives an infinity, or NaN when the dividend is zero as well, and a result
  that rounds beyond the largest float is an infinity (\<open>fl\<close>). The sign of a zero is not
  tracked: the divisors here are sums of integers converted to float, whose zero is the
  positive one.
\<close>

datatype float64 = Finite real | PosInf | NegInf | NaN

definition fl :: "real \<Rightarrow> float64" where
  "fl x =
     (let y = round64 x
      in if 2 ^ 1024 \<le> y then PosInf else if y \<le> - (2 ^ 1024) then NegInf else Finite y)"

fun f_div :: "float64 \<Rightarrow> float64 \<Rightarrow> float64" where
  "f_div (Finite a) (Finite b) =
     (if b = 0 then (if a = 0 then NaN else if 0 < a then PosInf else NegInf)
      else fl (a / b))"
| "f_div (Finite a) PosInf = Finite 0"
| "f_div (Finite a) NegInf = Finite 0"
| "f_div PosInf (Finite b) = (if 0 \<le> b then PosInf else NegInf)"
| "f_div NegInf (Finite b) = (if 0 \<le> b then NegInf else PosInf)"
| "f_div _ _ = NaN"

fun f_sub :: "float64 \<Rightarrow> float64 \<Rightarrow> float64" where
  "f_sub (Finite a) (Finite b) = fl (a - b)"
| "f_sub (Finite a) PosInf = NegInf"
| "f_sub (Finite a) NegInf = PosInf"
| "f_sub PosInf (Finite b) = PosInf"
| "f_sub PosInf NegInf = PosInf"
| "f_sub NegInf (Finite b) = NegInf"
| "f_sub NegInf PosInf = NegInf"
| "f_sub _ _ = NaN"

fun f_mul :: "float64 \<Rightarrow> float64 \<Rightarrow> float64" where
  "f_mul (Finite a) (Finite b) = fl (a * b)"
| "f_mul PosInf (Finite b) = (if b = 0 then NaN else if 0 < b then PosInf else NegInf)"
| "f_mul NegInf (Finite b) = (if b = 0 then NaN else if 0 < b then NegInf else PosInf)"
| "f_mul (Finite a) PosInf = (if a = 0 then NaN else if 0 < a then PosInf else NegInf)"
| "f_mul (Finite a) NegInf = (if a = 0 then NaN else if 0 < a then NegInf else PosInf)"
| "f_mul PosInf PosInf = PosInf"
| "f_mul NegInf NegInf = PosInf"
| "f_mul PosInf NegInf = NegInf"
| "f_mul NegInf PosInf = NegInf"
| "f_mul _ _ = NaN"

text \<open>The conversion of an integer to float rounds it when it has more than 53 bits.\<close>

definition float_of_int :: "int \<Rightarrow> float64" where
  "float_of_int n = fl (real_of_int n)"

section \<open>Sidebar defaults (lines 58 to 75)\<close>

text \<open>
  \<^verbatim>\<open>Series.min()\<close> and \<^verbatim>\<open>Series.max()\<close> of an empty column are the missing value
  (\<^verbatim>\<open>NaT\<close> for dates), here \<open>None\<close>. \<^verbatim>\<open>Series.unique()\<close> lists the distinct values in
  order of first appearance.
\<close>

fun series_min :: "'a::linorder list \<Rightarrow> 'a option" where
  "series_min [] = None"
| "series_min (x # xs) = Some (fold min xs x)"

fun series_max :: "'a::linorder list \<Rightarrow> 'a option" where
  "series_max [] = None"
| "series_max (x # xs) = Some (fold max xs x)"

fun unique_from :: "'a list \<Rightarrow> 'a list \<Rightarrow> 'a list" where
  "unique_from seen [] = []"
| "unique_from seen (x # xs) =
     (if List.member seen x then unique_from seen xs else x # unique_from (x # seen) xs)"

definition unique :: "'a list \<Rightarrow> 'a list" where
  "unique col = unique_from [] col"

section \<open>Metrics (lines 90 to 100)\<close>

datatype py_error = ValueError | ZeroDivisionError

definition col_eq :: "'a list \<Rightarrow> 'a \<Rightarrow> bool list" where
  "col_eq col v = map (\<lambda>x. x = v) col"

definition series_sum :: "int list \<Rightarrow> int" where
  "series_sum col = sum_list col"

definition total_reg :: "dataframe \<Rightarrow> int" where
  "total_reg df = series_sum (map registrations df)"

text \<open>
  Line 94: both operands are \<^verbatim>\<open>numpy.int64\<close> sums, so \<^verbatim>\<open>/\<close> is NumPy's true division:
  it yields a float and does not raise on a zero divisor. The years 2023 and 2022 are
  fixed in the source.
\<close>

definition year_total :: "int \<Rightarrow> dataframe \<Rightarrow> int" where
  "year_total y df = series_sum (map registrations (boolean_index df (col_eq (map year df) y)))"

definition yoy_growth :: "dataframe \<Rightarrow> float64" where
  "yoy_growth df =
     f_mul (f_sub (f_div (float_of_int (year_total 2023 df)) (float_of_int (year_total 2022 df)))
                  (Finite 1))
           (Finite 100)"

text \<open>
  Line 99: \<^verbatim>\<open>strftime('%B %Y')\<close> of the largest date. On an empty frame the largest date
  is \<^verbatim>\<open>NaT\<close>, whose \<^verbatim>\<open>strftime\<close> raises \<^verbatim>\<open>ValueError\<close>.
\<close>

definition month_names :: "string list" where
  "month_names = [''January'', ''February'', ''March'', ''April'', ''May'', ''June'', ''July'',
     ''August'', ''September'', ''October'', ''November'', ''December'']"

function str_nat :: "nat \<Rightarrow> string" where
  "str_nat n =
     (if n < 10 then [''0123456789'' ! n]
      else str_nat (n div 10) @ [''0123456789'' ! (n mod 10)])"
  by pat_completeness auto
termination
  by (relation "measure id") auto

definition str_int :: "int \<Rightarrow> string" where
  "str_int i = (if i < 0 then CHR ''-'' # str_nat (nat (- i)) else str_nat (nat i))"

definition strftime_B_Y :: "date \<Rightarrow> string" where
  "strftime_B_Y d = month_names ! nat (date_month d - 1) @ '' '' @ str_int (date_year d)"

definition latest_month :: "dataframe \<Rightarrow> py_error + string" where
  "latest_month df =
     (case series_max (map date df) of
        None \<Rightarrow> Inl ValueError
      | Some d \<Rightarrow> Inr (strftime_B_Y d))"


section \<open>Grouped tables (lines 107 to 122)\<close>

text \<open>
  \<^verbatim>\<open>df.groupby(key)['registrations'].sum().reset_index()\<close>: one row per distinct key, the
  keys in ascending order, with the sum of \<^verbatim>\<open>registrations\<close> over the rows of that key.
\<close>

definition groupby_sum :: "(row \<Rightarrow> 'k::linorder) \<Rightarrow> dataframe \<Rightarrow> ('k \<times> int) list" where
  "groupby_sum key df =
     map (\<lambda>k. (k, series_sum (map registrations (filter (\<lambda>r. key r = k) df))))
         (sort (remdups (map key df)))"

text \<open>
  \<^verbatim>\<open>pct_change\<close> divides each entry by the entry before it and subtracts one; the column
  shifted by one position starts with NaN.
\<close>

definition shift1 :: "float64 list \<Rightarrow> float64 list" where
  "shift1 col = take (length col) (NaN # col)"

definition pct_change :: "float64 list \<Rightarrow> float64 list" where
  "pct_change col = map (\<lambda>(x, prev). f_sub (f_div x prev) (Finite 1)) (zip col (shift1 col))"

definition yoy_df :: "dataframe \<Rightarrow> (int \<times> int \<times> float64) list" where
  "yoy_df df =
     (let grouped = groupby_sum year df;
          growth_pct = map (\<lambda>x. f_mul x (Finite 100))
                           (pct_change (map (\<lambda>(y, t). float_of_int t) grouped))
      in map (\<lambda>((y, t), g). (y, t, g)) (zip grouped growth_pct))"

definition manu_share :: "dataframe \<Rightarrow> (string \<times> int) list" where
  "manu_share df = groupby_sum manufacturer df"

definition monthly :: "dataframe \<Rightarrow> ((date \<times> string) \<times> int) list" where
  "monthly df = groupby_sum (\<lambda>r. (date r, category r)) df"

section \<open>The run of main (lines 77 to 125)\<close>

text \<open>
  \<^verbatim>\<open>main\<close> filters the frame, shows the three metrics and then draws the three charts,
  in this order; an exception ends the run at the statement that raises. The run is
  recorded as the values shown so far, each with the data it was given, and the exception
  that ended it, if any.
\<close>

datatype element =
    Metric_total int
  | Metric_yoy float64
  | Metric_latest string
  | Chart_yoy "(int \<times> int \<times> float64) list"
  | Chart_share "(string \<times> int) list"
  | Chart_trend "((date \<times> string) \<times> int) list"

definition main ::
  "dataframe \<Rightarrow> date \<times> date \<Rightarrow> string list \<Rightarrow> string list \<Rightarrow> element list \<times> py_error option" where
  "main df date_range categories manufacturers =
     (let fdf = filtered_df df date_range categories manufacturers;
          shown = [Metric_total (total_reg fdf), Metric_yoy (yoy_growth fdf)]
      in case latest_month fdf of
           Inl e \<Rightarrow> (shown, Some e)
         | Inr latest \<Rightarrow>
             (shown @ [Metric_latest latest, Chart_yoy (yoy_df fdf),
                       Chart_share (manu_share fdf), Chart_trend (monthly fdf)], None))"

section \<open>Data source (lines 9 to 46)\<close>

text \<open>
  The mock data: one row per month end from 2019-01 to 2023-12, category and manufacturer
  of that category. \<^verbatim>\<open>pd.date_range(start, end, freq='M')\<close> lists the month ends within
  the two bounds.
\<close>

definition mock_categories :: "string list" where
  "mock_categories = [''2W'', ''3W'', ''4W'']"

definition mock_manufacturers :: "(string \<times> string list) list" where
  "mock_manufacturers =
     [(''2W'', [''Hero'', ''Honda'', ''Bajaj'', ''TVS'', ''Royal Enfield'']),
      (''3W'', [''Bajaj'', ''Mahindra'', ''Piaggio'', ''TVS'']),
      (''4W'', [''Maruti'', ''Hyundai'', ''Tata'', ''Mahindra'', ''Kia'', ''Toyota''])]"

definition dict_get :: "('k \<times> 'v) list \<Rightarrow> 'k \<Rightarrow> 'v \<Rightarrow> 'v" where
  "dict_get d k dflt = (case map_of d k of Some v \<Rightarrow> v | None \<Rightarrow> dflt)"

definition is_leap :: "int \<Rightarrow> bool" where
  "is_leap y = (if y mod 400 = 0 then True else if y mod 100 = 0 then False else y mod 4 = 0)"

definition days_in_month :: "int \<Rightarrow> int \<Rightarrow> int" where
  "days_in_month y m =
     (if m = 2 then (if is_leap y then 29 else 28)
      else if m = 4 \<or> m = 6 \<or> m = 9 \<or> m = 11 then 30 else 31)"

definition month_ends :: "date \<Rightarrow> date \<Rightarrow> date list" where
  "month_ends start finish =
     filter (\<lambda>d. start \<le> d \<and> d \<le> finish)
       (concat (map (\<lambda>y. map (\<lambda>m. (y, m, days_in_month y m)) [1..12])
                    [date_year start..date_year finish]))"

definition mock_dates :: "date list" where
  "mock_dates = month_ends (2019, 1, 1) (2023, 12, 31)"

text \<open>
  Lines 29 to 32 compute with floats. The literals \<^verbatim>\<open>0.15\<close>, \<^verbatim>\<open>0.2\<close> and \<^verbatim>\<open>0.1\<close> denote the
  floats nearest to these decimals, \<^verbatim>\<open>np.pi\<close> is the float nearest to \<open>\<pi>\<close>, which is
  \<open>884279719003555 / 2 ^ 48\<close>, every operation rounds its exact result, and \<^verbatim>\<open>np.sin\<close> is
  taken to return the float nearest to the sine of its argument. The small integers
  \<^verbatim>\<open>date.year - 2019\<close>, \<^verbatim>\<open>date.month - 1\<close>, \<^verbatim>\<open>6\<close>, \<^verbatim>\<open>1\<close> and \<^verbatim>\<open>base\<close> convert to float exactly.
  The values here are far from the largest float, so no operation overflows.
  \<^verbatim>\<open>int(x)\<close> of a float truncates toward zero.
\<close>

definition float_lit :: "real \<Rightarrow> real" where
  "float_lit x = round64 x"

definition np_pi :: real where
  "np_pi = 884279719003555 / 2 ^ 48"

definition np_sin :: "real \<Rightarrow> real" where
  "np_sin x = round64 (sin x)"

definition py_int :: "real \<Rightarrow> int" where
  "py_int x = (if 0 \<le> x then \<lfloor>x\<rfloor> else \<lceil>x\<rceil>)"

definition growth_of :: "date \<Rightarrow> real" where
  "growth_of d = round64 (real_of_int (date_year d - 2019) * float_lit 0.15)"

definition seasonality_of :: "date \<Rightarrow> real" where
  "seasonality_of d =
     round64 (np_sin (round64 (round64 (real_of_int (date_month d - 1) * np_pi) / 6))
              * float_lit 0.2)"

text \<open>Lines 29 to 32: the value of the local variable \<^verbatim>\<open>registrations\<close>.\<close>

definition mock_registrations :: "int \<Rightarrow> real \<Rightarrow> date \<Rightarrow> int" where
  "mock_registrations base noise d =
     (let growth = growth_of d;
          seasonality = seasonality_of d
      in py_int (round64 (real_of_int base *
                   round64 (round64 (round64 (1 + growth) + seasonality) + noise))))"

text \<open>Lines 34 to 42: the appended row.\<close>

definition mock_row :: "int \<Rightarrow> real \<Rightarrow> date \<Rightarrow> string \<Rightarrow> string \<Rightarrow> row" where
  "mock_row base noise d c m =
     \<lparr>date = d,
      year = date_year d,
      quarter = ''Q'' @ str_int ((date_month d - 1) div 3 + 1),
      month = date_month d,
      category = c,
      manufacturer = m,
      registrations = max 1000 (mock_registrations base noise d)\<rparr>"

text \<open>
  The three nested loops. The random source is a state \<open>g\<close> with the two samplers the
  source calls, \<^verbatim>\<open>randint(low, high)\<close> and \<^verbatim>\<open>normal(loc, scale)\<close>, each returning its draw
  and the next state; every iteration draws \<open>base\<close>, then \<open>noise\<close>.
\<close>

type_synonym 'g randint = "int \<Rightarrow> int \<Rightarrow> 'g \<Rightarrow> int \<times> 'g"
type_synonym 'g normal = "real \<Rightarrow> real \<Rightarrow> 'g \<Rightarrow> real \<times> 'g"

fun manufacturer_loop ::
  "'g randint \<Rightarrow> 'g normal \<Rightarrow> date \<Rightarrow> string \<Rightarrow> string list \<Rightarrow> 'g \<Rightarrow> row list \<times> 'g" where
  "manufacturer_loop ri nm d c [] g = ([], g)"
| "manufacturer_loop ri nm d c (m # ms) g =
     (let (base, g1) = ri 1000 5000 g;
          (noise, g2) = nm 0 (float_lit 0.1) g1;
          (rows, g3) = manufacturer_loop ri nm d c ms g2
      in (mock_row base noise d c m # rows, g3))"

fun category_loop ::
  "'g randint \<Rightarrow> 'g normal \<Rightarrow> date \<Rightarrow> string list \<Rightarrow> 'g \<Rightarrow> row list \<times> 'g" where
  "category_loop ri nm d [] g = ([], g)"
| "category_loop ri nm d (c # cs) g =
     (let (rows1, g1) = manufacturer_loop ri nm d c (dict_get mock_manufacturers c []) g;
          (rows2, g2) = category_loop ri nm d cs g1
      in (rows1 @ rows2, g2))"

fun date_loop ::
  "'g randint \<Rightarrow> 'g normal \<Rightarrow> date list \<Rightarrow> 'g \<Rightarrow> row list \<times> 'g" where
  "date_loop ri nm [] g = ([], g)"
| "date_loop ri nm (d # ds) g =
     (let (rows1, g1) = category_loop ri nm d mock_categories g;
          (rows2, g2) = date_loop ri nm ds g1
      in (rows1 @ rows2, g2))"

definition mock_data :: "'g randint \<Rightarrow> 'g normal \<Rightarrow> 'g \<Rightarrow> dataframe" where
  "mock_data ri nm g = fst (date_loop ri nm mock_dates g)"

text \<open>
  \<^verbatim>\<open>load_data\<close>: the table read from the file when reading and date parsing succeed
  (\<open>Some\<close>), the mock data on any exception (\<open>None\<close>).
\<close>

definition load_data :: "dataframe option \<Rightarrow> 'g randint \<Rightarrow> 'g normal \<Rightarrow> 'g \<Rightarrow> dataframe" where
  "load_data csv ri nm g = (case csv of Some df \<Rightarrow> df | None \<Rightarrow> mock_data ri nm g)"

text \<open>
  The specification's formula for \<^verbatim>\<open>registrations\<close>, which rounds the float product to the
  nearest integer where the source truncates it.
\<close>

definition registrations_as_specified :: "int \<Rightarrow> real \<Rightarrow> date \<Rightarrow> int" where
  "registrations_as_specified base noise d =
     max 1000 (round (round64 (real_of_int base *
                 round64 (round64 (round64 (1 + growth_of d) + seasonality_of d) + noise))))"

text \<open>A random source for examples: it replays prepared lists of draws.\<close>

definition replay_randint :: "(int list \<times> real list) randint" where
  "replay_randint low high g =
     (case fst g of [] \<Rightarrow> (low, g) | b # bs \<Rightarrow> (b, (bs, snd g)))"

definition replay_normal :: "(int list \<times> real list) normal" where
  "replay_normal loc scale g =
     (case snd g of [] \<Rightarrow> (loc, g) | n # ns \<Rightarrow> (n, (fst g, ns)))"

text \<open>Rows for examples.\<close>

definition hero_row :: "date \<Rightarrow> int \<Rightarrow> row" where
  "hero_row d n =
     \<lparr>date = d, year = date_year d, quarter = ''Q'' @ str_int ((date_month d - 1) div 3 + 1),
      month = date_month d, category = ''2W'', manufacturer = ''Hero'', registrations = n\<rparr>"

definition two_year_frame :: dataframe where
  "two_year_frame = [hero_row (2020, 1, 31) 1500, hero_row (2019, 1, 31) 400, hero_row (2019, 2, 28) 600]"

definition only_2023_frame :: dataframe where
  "only_2023_frame = [hero_row (2023, 1, 31) 1100]"


section \<open>Properties of the filter\<close>

lemma boolean_index_map: "boolean_index xs (map P xs) = filter P xs"
  by (induction xs) (simp_all add: boolean_index_def)

lemma mask_and_map: "mask_and (map P xs) (map Q xs) = map (\<lambda>x. P x \<and> Q x) xs"
  by (induction xs) (simp_all add: mask_and_def)

lemma filtered_df_filter:
  "filtered_df df date_range categories manufacturers =
   filter (keeps date_range categories manufacturers) df"
proof -
  have "filtered_df df date_range categories manufacturers =
        boolean_index df (map (keeps date_range categories manufacturers) df)"
    unfolding filtered_df_def col_ge_def col_le_def isin_def keeps_def
    by (simp add: mask_and_map comp_def conj_assoc)
  then show ?thesis by (simp add: boolean_index_map)
qed

text \<open>
  C1. The filter returns exactly the rows within the date range whose category and
  manufacturer are among the selected ones, in the order of the input (it is a
  subsequence of the input); with no manufacturer selected, or no category selected, the
  result is empty whatever the other selections are.
\<close>

theorem filter_is_subsequence_of_matching_rows:
  "filtered_df df (start, end) categories manufacturers =
     filter (\<lambda>r. start \<le> date r \<and> date r \<le> end \<and>
                 category r \<in> set categories \<and> manufacturer r \<in> set manufacturers) df
   \<and> subseq (filtered_df df (start, end) categories manufacturers) df
   \<and> filtered_df df (start, end) categories [] = []
   \<and> filtered_df df (start, end) [] manufacturers = []"
proof -
  have "keeps (start, end) categories manufacturers =
        (\<lambda>r. start \<le> date r \<and> date r \<le> end \<and>
             category r \<in> set categories \<and> manufacturer r \<in> set manufacturers)"
    by (rule ext) (simp add: keeps_def)
  moreover have "keeps (start, end) categories [] = (\<lambda>r. False)"
    by (rule ext) (simp add: keeps_def)
  moreover have "keeps (start, end) [] manufacturers = (\<lambda>r. False)"
    by (rule ext) (simp add: keeps_def)
  ultimately show ?thesis
    by (simp add: filtered_df_filter)
qed

text \<open>
  C7. Filtering the result of a filter again, with the same date range, categories and
  manufacturers, returns that result unchanged.
\<close>

theorem filter_idempotent:
  "filtered_df (filtered_df df date_range categories manufacturers)
     date_range categories manufacturers =
   filtered_df df date_range categories manufacturers"
  by (simp add: filtered_df_filter)

section \<open>Properties of the rounding\<close>

lemma pow2_powr: "pow2 e = 2 powr (real_of_int e)"
  by (simp add: pow2_def powr_real_of_int divide_inverse)

lemma pow2_pos: "0 < pow2 e"
  by (simp add: pow2_powr)



lemma pow2_less_cancel: "pow2 a < pow2 b \<Longrightarrow> a < b"
  by (simp add: pow2_powr)

lemma pow2_nat: "0 \<le> e \<Longrightarrow> pow2 e = 2 ^ nat e"
  by (simp add: pow2_def)

lemma pow2_neg: "0 \<le> n \<Longrightarrow> pow2 (- n) = 1 / 2 ^ nat n"
  by (cases "n = 0") (simp_all add: pow2_def)

lemma ilog2_bounds:
  assumes "0 < x"
  shows "pow2 (ilog2 x) \<le> x \<and> x < pow2 (ilog2 x + 1)"
proof (cases "1 \<le> x")
  case True
  define c where "c = \<lfloor>x\<rfloor>"
  define k where "k = bitlen c"
  from True have p: "0 < c" by (simp add: c_def)
  from bitlen_bounds [OF p] have b: "2 ^ nat (k - 1) \<le> c" "c < 2 ^ nat k"
    by (simp_all add: k_def)
  from p have k: "1 \<le> k" by (simp add: k_def bitlen_def floorlog_def)
  have cx: "real_of_int c \<le> x" "x < real_of_int c + 1" by (simp_all add: c_def)
  have "real_of_int (2 ^ nat (k - 1)) \<le> real_of_int c" using b(1) by (rule of_int_le_iff [THEN iffD2])
  then have "2 ^ nat (k - 1) \<le> real_of_int c" by simp
  with cx have 1: "2 ^ nat (k - 1) \<le> x" by linarith
  have "c + 1 \<le> 2 ^ nat k" using b(2) by simp
  then have "real_of_int (c + 1) \<le> real_of_int (2 ^ nat k)" by (rule of_int_le_iff [THEN iffD2])
  then have "real_of_int c + 1 \<le> 2 ^ nat k" by simp
  with cx have 2: "x < 2 ^ nat k" by linarith
  have e: "ilog2 x = k - 1" using True by (simp add: ilog2_def k_def c_def)
  have "pow2 (k - 1) = 2 ^ nat (k - 1)" using k by (simp add: pow2_nat)
  moreover have "pow2 (k - 1 + 1) = 2 ^ nat k" using k by (simp add: pow2_nat)
  ultimately show ?thesis using 1 2 by (simp add: e)
next
  case False
  with assms have x1: "x < 1" by simp
  define y where "y = 1 / x"
  define c where "c = \<lceil>y\<rceil>"
  define k where "k = bitlen (c - 1)"
  from assms x1 have y1: "1 < y" by (simp add: y_def)
  have cy: "y \<le> real_of_int c" "real_of_int c - 1 < y"
    using ceiling_correct [of y] by (simp_all add: c_def)
  from y1 cy have "1 < real_of_int c" by linarith
  then have p: "0 < c - 1" by simp
  from bitlen_bounds [OF p] have b: "2 ^ nat (k - 1) \<le> c - 1" "c - 1 < 2 ^ nat k"
    by (simp_all add: k_def)
  from p have k: "1 \<le> k" by (simp add: k_def bitlen_def floorlog_def)
  have "c \<le> 2 ^ nat k" using b(2) by simp
  then have "real_of_int c \<le> real_of_int (2 ^ nat k)" by (rule of_int_le_iff [THEN iffD2])
  then have "real_of_int c \<le> 2 ^ nat k" by simp
  with cy have "y \<le> 2 ^ nat k" by linarith
  then have "1 \<le> 2 ^ nat k * x" using assms by (simp add: y_def field_simps)
  then have 1: "1 / 2 ^ nat k \<le> x" by (simp add: field_simps)
  have "real_of_int (2 ^ nat (k - 1)) \<le> real_of_int (c - 1)"
    using b(1) by (rule of_int_le_iff [THEN iffD2])
  then have "2 ^ nat (k - 1) \<le> real_of_int c - 1" by simp
  with cy have "2 ^ nat (k - 1) < y" by linarith
  then have "2 ^ nat (k - 1) * x < 1" using assms by (simp add: y_def field_simps)
  then have 2: "x < 1 / 2 ^ nat (k - 1)" by (simp add: field_simps)
  have e: "ilog2 x = - k" using False by (simp add: ilog2_def k_def c_def y_def)
  have "pow2 (- k) = 1 / 2 ^ nat k" using k by (simp add: pow2_neg)
  moreover have "pow2 (- k + 1) = 1 / 2 ^ nat (k - 1)"
    using k pow2_neg [of "k - 1"] by simp
  ultimately show ?thesis using 1 2 by (simp add: e)
qed

lemma ilog2_unique:
  assumes "pow2 e \<le> x" "x < pow2 (e + 1)"
  shows "ilog2 x = e"
proof -
  from assms(1) pow2_pos [of e] have "0 < x" by linarith
  from ilog2_bounds [OF this] have b: "pow2 (ilog2 x) \<le> x" "x < pow2 (ilog2 x + 1)" by simp_all
  from assms(1) b(2) have "pow2 e < pow2 (ilog2 x + 1)" by linarith
  then have 1: "e < ilog2 x + 1" by (rule pow2_less_cancel)
  from b(1) assms(2) have "pow2 (ilog2 x) < pow2 (e + 1)" by linarith
  then have 2: "ilog2 x < e + 1" by (rule pow2_less_cancel)
  from 1 2 show ?thesis by simp
qed

lemma round_half_even_of_int: "round_half_even (real_of_int k) = k"
  by (simp add: round_half_even_def)



lemma round_half_even_le: "x \<le> real_of_int k \<Longrightarrow> round_half_even x \<le> k"
proof -
  assume a: "x \<le> real_of_int k"
  then have f: "\<lfloor>x\<rfloor> \<le> k" by (simp add: floor_le_iff)
  show ?thesis
  proof (cases "\<lfloor>x\<rfloor> = k")
    case True
    have "real_of_int \<lfloor>x\<rfloor> \<le> x" by linarith
    with a True have "x - real_of_int \<lfloor>x\<rfloor> = 0" by simp
    then show ?thesis using True by (simp add: round_half_even_def Let_def)
  next
    case False
    with f have "\<lfloor>x\<rfloor> + 1 \<le> k" by simp
    then show ?thesis by (auto simp add: round_half_even_def Let_def)
  qed
qed


lemma quantum_pos: "0 < quantum x"
  by (simp add: quantum_def pow2_pos)

lemma round64_0: "round64 0 = 0"
  by (simp add: round64_def)

lemma round64_exact:
  assumes "x / quantum x = real_of_int k"
  shows "round64 x = x"
proof (cases "x = 0")
  case True
  then show ?thesis by (simp add: round64_def)
next
  case False
  have "real_of_int k * quantum x = x" using assms quantum_pos [of x] by (simp add: field_simps)
  with False show ?thesis by (simp add: round64_def assms round_half_even_of_int)
qed


lemma quantum_normal:
  assumes "pow2 e \<le> \<bar>x\<bar>" "\<bar>x\<bar> < pow2 (e + 1)" "- 1022 \<le> e"
  shows "quantum x = pow2 (e - 52)"
  using ilog2_unique [OF assms(1,2)] assms(3) by (simp add: quantum_def)

lemma round64_normal:
  assumes "pow2 e \<le> \<bar>x\<bar>" "\<bar>x\<bar> < pow2 (e + 1)" "- 1022 \<le> e"
  shows "round64 x = real_of_int (round_half_even (x / pow2 (e - 52))) * pow2 (e - 52)"
proof -
  from assms(1) pow2_pos [of e] have "x \<noteq> 0" by auto
  then show ?thesis by (simp add: round64_def quantum_normal [OF assms])
qed






lemma round64_int:
  assumes "\<bar>n\<bar> < 2 ^ 53"
  shows "round64 (real_of_int n) = real_of_int n"
proof (cases "n = 0")
  case True
  then show ?thesis by (simp add: round64_0)
next
  case False
  define a where "a = \<bar>real_of_int n\<bar>"
  from False have a1: "1 \<le> a" by (simp add: a_def)
  then have a0: "0 < a" by simp
  define e where "e = ilog2 a"
  from ilog2_bounds [OF a0] have b: "pow2 e \<le> a" "a < pow2 (e + 1)" by (simp_all add: e_def)
  from a1 b(2) have "pow2 0 < pow2 (e + 1)" by (simp add: pow2_def)
  then have e0: "0 \<le> e" using pow2_less_cancel [of 0 "e + 1"] by simp
  from assms have "real_of_int \<bar>n\<bar> < real_of_int (2 ^ 53)" by (rule of_int_less_iff [THEN iffD2])
  then have "a < pow2 53" by (simp add: a_def pow2_def)
  with b(1) have "pow2 e < pow2 53" by linarith
  then have e52: "e \<le> 52" using pow2_less_cancel [of e 53] by simp
  from e0 have q: "quantum (real_of_int n) = pow2 (e - 52)" by (simp add: quantum_def e_def a_def)
  from e52 have "pow2 (e - 52) = 1 / 2 ^ nat (52 - e)" using pow2_neg [of "52 - e"] by simp
  then have "real_of_int n / quantum (real_of_int n) = real_of_int (n * 2 ^ nat (52 - e))"
    by (simp add: q)
  then show ?thesis by (rule round64_exact)
qed


lemma round64_dyadic:
  assumes "pow2 e \<le> \<bar>x\<bar>" "\<bar>x\<bar> < pow2 (e + 1)" "- 1022 \<le> e"
    and "x / pow2 (e - 52) = real_of_int k"
  shows "round64 x = x"
  using assms(4) by (intro round64_exact [of x k]) (simp add: quantum_normal [OF assms(1-3)])




lemma round64_1: "round64 1 = 1"
  using round64_int [of 1] by simp

lemma fl_0: "fl 0 = Finite 0"
  by (simp add: fl_def round64_0)







section \<open>Properties of the metrics and the grouped tables\<close>

lemma filter_absent_key: "k \<notin> set (map key xs) \<Longrightarrow> filter (\<lambda>r. key r = k) xs = []"
  by (induction xs) auto

lemma sum_groups:
  fixes f :: "'a \<Rightarrow> int"
  shows "(\<Sum>k\<in>set (map key xs). sum_list (map f (filter (\<lambda>r. key r = k) xs))) = sum_list (map f xs)"
proof (induction xs)
  case Nil show ?case by simp
next
  case (Cons x xs)
  let ?K = "set (map key xs)"
  let ?g = "\<lambda>k. sum_list (map f (filter (\<lambda>r. key r = k) xs))"
  have fin: "finite ?K" by simp
  have zero: "key x \<notin> ?K \<Longrightarrow> ?g (key x) = 0"
  proof -
    assume "key x \<notin> ?K"
    then show ?thesis by (simp add: filter_absent_key)
  qed
  have "(\<Sum>k\<in>insert (key x) ?K. sum_list (map f (filter (\<lambda>r. key r = k) (x # xs))))
        = (\<Sum>k\<in>insert (key x) ?K. (if k = key x then f x else 0) + ?g k)"
    by (rule sum.cong) auto
  also have "\<dots> = (\<Sum>k\<in>insert (key x) ?K. (if k = key x then f x else 0)) + (\<Sum>k\<in>insert (key x) ?K. ?g k)"
    by (simp add: sum.distrib)
  also have "(\<Sum>k\<in>insert (key x) ?K. (if k = key x then f x else 0)) = f x"
    using fin by (simp add: sum.delta')
  also have "(\<Sum>k\<in>insert (key x) ?K. ?g k) = (\<Sum>k\<in>?K. ?g k)"
    using zero fin by (cases "key x \<in> ?K") (simp_all add: insert_absorb)
  finally show ?case using Cons.IH by simp
qed

lemma groupby_sum_keys: "map fst (groupby_sum key df) = sort (remdups (map key df))"
  by (simp add: groupby_sum_def comp_def)

lemma groupby_sum_total: "sum_list (map snd (groupby_sum key df)) = total_reg df"
proof -
  let ?g = "\<lambda>k. sum_list (map registrations (filter (\<lambda>r. key r = k) df))"
  let ?ks = "sort (remdups (map key df))"
  have "sum_list (map snd (groupby_sum key df)) = sum_list (map ?g ?ks)"
    by (simp add: groupby_sum_def comp_def series_sum_def)
  also have "\<dots> = sum ?g (set ?ks)"
    by (rule sum_list_distinct_conv_sum_set) simp
  also have "\<dots> = sum ?g (set (map key df))" by simp
  also have "\<dots> = sum_list (map registrations df)" by (rule sum_groups)
  finally show ?thesis by (simp add: total_reg_def series_sum_def)
qed

text \<open>
  C6. Each grouped table conserves the total: the per-manufacturer sums of the market-share
  table add up to the total registrations of the frame, and so do the sums per
  (date, category) of the monthly table.
\<close>

theorem grouped_totals_conserve_mass:
  "sum_list (map snd (manu_share df)) = total_reg df \<and>
   sum_list (map snd (monthly df)) = total_reg df"
  by (simp add: manu_share_def monthly_def groupby_sum_total)

lemma fold_min_le: "fold min xs (x::'a::linorder) \<le> x"
proof (induction xs arbitrary: x)
  case Nil show ?case by simp
next
  case (Cons a xs)
  have "fold min xs (min a x) \<le> min a x" by (rule Cons.IH)
  also have "\<dots> \<le> x" by simp
  finally show ?case by simp
qed

lemma fold_min_le_all: "y \<in> set xs \<Longrightarrow> fold min xs (x::'a::linorder) \<le> y"
proof (induction xs arbitrary: x)
  case Nil then show ?case by simp
next
  case (Cons a xs)
  show ?case
  proof (cases "y = a")
    case True
    have "fold min xs (min a x) \<le> min a x" by (rule fold_min_le)
    then show ?thesis using True by simp
  next
    case False then show ?thesis using Cons by simp
  qed
qed

lemma fold_max_ge: "x \<le> fold max xs (x::'a::linorder)"
proof (induction xs arbitrary: x)
  case Nil show ?case by simp
next
  case (Cons a xs)
  have "x \<le> max a x" by simp
  also have "\<dots> \<le> fold max xs (max a x)" by (rule Cons.IH)
  finally show ?case by simp
qed

lemma fold_max_ge_all: "y \<in> set xs \<Longrightarrow> y \<le> fold max xs (x::'a::linorder)"
proof (induction xs arbitrary: x)
  case Nil then show ?case by simp
next
  case (Cons a xs)
  show ?case
  proof (cases "y = a")
    case True
    have "max a x \<le> fold max xs (max a x)" by (rule fold_max_ge)
    then show ?thesis using True by simp
  next
    case False then show ?thesis using Cons by simp
  qed
qed

lemma series_min_lower: "series_min col = Some lo \<Longrightarrow> y \<in> set col \<Longrightarrow> lo \<le> y"
  by (cases col) (auto simp: fold_min_le fold_min_le_all)

lemma series_max_upper: "series_max col = Some hi \<Longrightarrow> y \<in> set col \<Longrightarrow> y \<le> hi"
  by (cases col) (auto simp: fold_max_ge fold_max_ge_all)

lemma set_unique_from: "set (unique_from seen col) = set col - set seen"
  by (induction col arbitrary: seen) auto

lemma set_unique: "set (unique col) = set col"
  by (simp add: unique_def set_unique_from)

lemma distinct_unique_from: "distinct (unique_from seen col)"
  by (induction col arbitrary: seen) (auto simp: set_unique_from)

text \<open>
  C10. Filtering with the sidebar's defaults returns the input: either the frame is empty,
  and then every filter returns it, or its smallest and largest date exist and the filter
  from the smallest to the largest date, with all categories and all manufacturers that
  occur, returns the frame unchanged.
\<close>

theorem full_extent_filter_is_identity:
  "(df = [] \<and>
      filtered_df df date_range (unique (map category df)) (unique (map manufacturer df)) = df)
   \<or> (\<exists>lo hi. series_min (map date df) = Some lo \<and> series_max (map date df) = Some hi \<and>
        filtered_df df (lo, hi) (unique (map category df)) (unique (map manufacturer df)) = df)"
proof (cases df)
  case Nil
  then show ?thesis by (simp add: filtered_df_filter)
next
  case (Cons r rs)
  obtain lo where lo: "series_min (map date df) = Some lo" using Cons by simp
  obtain hi where hi: "series_max (map date df) = Some hi" using Cons by simp
  have "\<forall>x\<in>set df. keeps (lo, hi) (unique (map category df)) (unique (map manufacturer df)) x"
    using series_min_lower[OF lo] series_max_upper[OF hi]
    by (simp add: keeps_def set_unique)
  then have "filter (keeps (lo, hi) (unique (map category df)) (unique (map manufacturer df))) df = df"
    by (simp add: filter_id_conv)
  then show ?thesis using lo hi by (simp add: filtered_df_filter)
qed

section \<open>Properties of the run on an empty selection\<close>

lemma yoy_growth_empty: "yoy_growth [] = NaN"
  by (simp add: yoy_growth_def year_total_def boolean_index_def col_eq_def series_sum_def
      float_of_int_def fl_0)

lemma main_empty:
  "filtered_df df date_range categories manufacturers = [] \<Longrightarrow>
   main df date_range categories manufacturers =
     ([Metric_total 0, Metric_yoy NaN], Some ValueError)"
  by (simp add: main_def Let_def total_reg_def series_sum_def yoy_growth_empty latest_month_def)

lemma main_nonempty:
  assumes "filtered_df df date_range categories manufacturers \<noteq> []"
  shows "\<exists>latest. main df date_range categories manufacturers =
     ([Metric_total (total_reg (filtered_df df date_range categories manufacturers)),
       Metric_yoy (yoy_growth (filtered_df df date_range categories manufacturers)),
       Metric_latest latest,
       Chart_yoy (yoy_df (filtered_df df date_range categories manufacturers)),
       Chart_share (manu_share (filtered_df df date_range categories manufacturers)),
       Chart_trend (monthly (filtered_df df date_range categories manufacturers))], None)"
proof -
  from assms obtain r rs where
    "filtered_df df date_range categories manufacturers = r # rs"
    by (cases "filtered_df df date_range categories manufacturers") auto
  then show ?thesis by (simp add: main_def Let_def latest_month_def)
qed

text \<open>
  C9, as stated: on an empty filtered frame the market-share and the monthly-trend outputs
  are empty sequences. The run of \<^verbatim>\<open>main\<close> yields no such outputs: with every category
  deselected it shows the total 0 and the growth NaN, and ends with the \<^verbatim>\<open>ValueError\<close> of
  line 99 before any table is computed.
\<close>

theorem empty_selection_counterexample:
  "filtered_df only_2023_frame ((2023, 1, 1), (2023, 12, 31)) [] [''Hero''] = [] \<and>
   main only_2023_frame ((2023, 1, 1), (2023, 12, 31)) [] [''Hero''] =
     ([Metric_total 0, Metric_yoy NaN], Some ValueError)"
proof -
  have e: "filtered_df only_2023_frame ((2023, 1, 1), (2023, 12, 31)) [] [''Hero''] = []"
    by (simp add: filtered_df_filter keeps_def)
  from e main_empty [OF e] show ?thesis by simp
qed

text \<open>
  C9, amended. When the filtered frame is empty, \<^verbatim>\<open>main\<close> shows the total 0 and the
  year-over-year growth NaN, and the latest month is undefined: the largest date is missing
  and formatting it raises \<^verbatim>\<open>ValueError\<close>, which ends the run, so that the year-over-year,
  market-share and monthly-trend tables are not produced. When the filtered frame is not
  empty the run completes and produces the three metrics and the three tables.
\<close>

theorem empty_frame_metrics:
  "(filtered_df df date_range categories manufacturers = [] \<longrightarrow>
      main df date_range categories manufacturers =
        ([Metric_total 0, Metric_yoy NaN], Some ValueError))
   \<and> (filtered_df df date_range categories manufacturers \<noteq> [] \<longrightarrow>
      (\<exists>latest. main df date_range categories manufacturers =
        ([Metric_total (total_reg (filtered_df df date_range categories manufacturers)),
          Metric_yoy (yoy_growth (filtered_df df date_range categories manufacturers)),
          Metric_latest latest,
          Chart_yoy (yoy_df (filtered_df df date_range categories manufacturers)),
          Chart_share (manu_share (filtered_df df date_range categories manufacturers)),
          Chart_trend (monthly (filtered_df df date_range categories manufacturers))], None)))
   \<and> total_reg [] = 0
   \<and> series_max (map date []) = None
   \<and> latest_month [] = Inl ValueError"
proof -
  have "total_reg [] = 0 \<and> series_max (map date []) = None \<and> latest_month [] = Inl ValueError"
    by (simp add: total_reg_def series_sum_def latest_month_def)
  then show ?thesis
    using main_empty [of df date_range categories manufacturers]
      main_nonempty [of df date_range categories manufacturers]
    by blast
qed

lemma two_year_frame_unselected:
  "filtered_df two_year_frame ((2019, 1, 1), (2020, 12, 31)) [''2W''] [] = []"
  by (simp add: filtered_df_filter keeps_def)

lemma two_year_frame_selected:
  "filtered_df two_year_frame ((2019, 1, 1), (2020, 12, 31)) [''2W''] [''Hero''] =
   two_year_frame \<and> two_year_frame \<noteq> []"
  by (simp add: filtered_df_filter keeps_def two_year_frame_def hero_row_def)

theorem empty_frame_metrics_witness:
  "filtered_df two_year_frame ((2019, 1, 1), (2020, 12, 31)) [''2W''] [] = [] \<and>
   main two_year_frame ((2019, 1, 1), (2020, 12, 31)) [''2W''] [] =
     ([Metric_total 0, Metric_yoy NaN], Some ValueError) \<and>
   filtered_df two_year_frame ((2019, 1, 1), (2020, 12, 31)) [''2W''] [''Hero''] =
     two_year_frame \<and>
   (\<exists>latest. main two_year_frame ((2019, 1, 1), (2020, 12, 31)) [''2W''] [''Hero''] =
      ([Metric_total (total_reg two_year_frame), Metric_yoy (yoy_growth two_year_frame),
        Metric_latest latest, Chart_yoy (yoy_df two_year_frame),
        Chart_share (manu_share two_year_frame), Chart_trend (monthly two_year_frame)], None))"
proof -
  note e = empty_frame_metrics
    [of two_year_frame "((2019, 1, 1), (2020, 12, 31))" "[''2W'']" "[]"]
  note n = empty_frame_metrics
    [of two_year_frame "((2019, 1, 1), (2020, 12, 31))" "[''2W'']" "[''Hero'']"]
  from e two_year_frame_unselected
  have a: "main two_year_frame ((2019, 1, 1), (2020, 12, 31)) [''2W''] [] =
     ([Metric_total 0, Metric_yoy NaN], Some ValueError)" by blast
  from n two_year_frame_selected
  have b: "\<exists>latest. main two_year_frame ((2019, 1, 1), (2020, 12, 31)) [''2W''] [''Hero''] =
      ([Metric_total (total_reg two_year_frame), Metric_yoy (yoy_growth two_year_frame),
        Metric_latest latest, Chart_yoy (yoy_df two_year_frame),
        Chart_share (manu_share two_year_frame), Chart_trend (monthly two_year_frame)], None)"
    by simp
  from a b two_year_frame_unselected two_year_frame_selected show ?thesis by blast
qed

section \<open>Properties of the year-over-year table\<close>


























section \<open>Properties of the year-over-year metric\<close>














section \<open>Properties of the mock data\<close>

lemma manufacturer_loop_rows:
  "r \<in> set (fst (manufacturer_loop ri nm d c ms g)) \<Longrightarrow>
   \<exists>m g0 base g1 noise g2. m \<in> set ms \<and> ri 1000 5000 g0 = (base, g1) \<and>
      nm 0 (float_lit 0.1) g1 = (noise, g2) \<and> r = mock_row base noise d c m"
proof (induction ms arbitrary: g)
  case Nil
  then show ?case by simp
next
  case (Cons m ms)
  obtain base g1 where b: "ri 1000 5000 g = (base, g1)" by (cases "ri 1000 5000 g")
  obtain noise g2 where n: "nm 0 (float_lit 0.1) g1 = (noise, g2)" by (cases "nm 0 (float_lit 0.1) g1")
  obtain rows g3 where l: "manufacturer_loop ri nm d c ms g2 = (rows, g3)"
    by (cases "manufacturer_loop ri nm d c ms g2")
  from Cons.prems b n l have "r = mock_row base noise d c m \<or> r \<in> set rows" by simp
  then show ?case
  proof
    assume "r = mock_row base noise d c m"
    moreover have "m \<in> set (m # ms)" by simp
    ultimately show ?thesis using b n by blast
  next
    assume "r \<in> set rows"
    with l have "r \<in> set (fst (manufacturer_loop ri nm d c ms g2))" by simp
    from Cons.IH [OF this] obtain m' g0 base' g1' noise' g2' where
      "m' \<in> set ms" and e: "ri 1000 5000 g0 = (base', g1')" "nm 0 (float_lit 0.1) g1' = (noise', g2')"
        "r = mock_row base' noise' d c m'"
      by blast
    then have "m' \<in> set (m # ms)" by simp
    with e show ?thesis by blast
  qed
qed

lemma category_loop_rows:
  "r \<in> set (fst (category_loop ri nm d cs g)) \<Longrightarrow>
   \<exists>c m g0 base g1 noise g2. c \<in> set cs \<and> m \<in> set (dict_get mock_manufacturers c []) \<and>
      ri 1000 5000 g0 = (base, g1) \<and> nm 0 (float_lit 0.1) g1 = (noise, g2) \<and> r = mock_row base noise d c m"
proof (induction cs arbitrary: g)
  case Nil
  then show ?case by simp
next
  case (Cons c cs)
  obtain rows1 g1 where l1:
    "manufacturer_loop ri nm d c (dict_get mock_manufacturers c []) g = (rows1, g1)"
    by (cases "manufacturer_loop ri nm d c (dict_get mock_manufacturers c []) g")
  obtain rows2 g2 where l2: "category_loop ri nm d cs g1 = (rows2, g2)"
    by (cases "category_loop ri nm d cs g1")
  from Cons.prems l1 l2 have "r \<in> set rows1 \<or> r \<in> set rows2" by simp
  then show ?case
  proof
    assume "r \<in> set rows1"
    with l1 have
      "r \<in> set (fst (manufacturer_loop ri nm d c (dict_get mock_manufacturers c []) g))"
      by simp
    from manufacturer_loop_rows [OF this] obtain m g0 base' g1' noise' g2' where
      e: "m \<in> set (dict_get mock_manufacturers c [])" "ri 1000 5000 g0 = (base', g1')"
        "nm 0 (float_lit 0.1) g1' = (noise', g2')" "r = mock_row base' noise' d c m"
      by blast
    have "c \<in> set (c # cs)" by simp
    with e show ?thesis by blast
  next
    assume "r \<in> set rows2"
    with l2 have "r \<in> set (fst (category_loop ri nm d cs g1))" by simp
    from Cons.IH [OF this] obtain c' m g0 base' g1' noise' g2' where
      "c' \<in> set cs" and e: "m \<in> set (dict_get mock_manufacturers c' [])"
        "ri 1000 5000 g0 = (base', g1')" "nm 0 (float_lit 0.1) g1' = (noise', g2')"
        "r = mock_row base' noise' d c' m"
      by blast
    then have "c' \<in> set (c # cs)" by simp
    with e show ?thesis by blast
  qed
qed

lemma date_loop_rows:
  "r \<in> set (fst (date_loop ri nm ds g)) \<Longrightarrow>
   \<exists>d c m g0 base g1 noise g2. d \<in> set ds \<and> c \<in> set mock_categories \<and>
      m \<in> set (dict_get mock_manufacturers c []) \<and>
      ri 1000 5000 g0 = (base, g1) \<and> nm 0 (float_lit 0.1) g1 = (noise, g2) \<and> r = mock_row base noise d c m"
proof (induction ds arbitrary: g)
  case Nil
  then show ?case by simp
next
  case (Cons d ds)
  obtain rows1 g1 where l1: "category_loop ri nm d mock_categories g = (rows1, g1)"
    by (cases "category_loop ri nm d mock_categories g")
  obtain rows2 g2 where l2: "date_loop ri nm ds g1 = (rows2, g2)"
    by (cases "date_loop ri nm ds g1")
  from Cons.prems l1 l2 have "r \<in> set rows1 \<or> r \<in> set rows2" by simp
  then show ?case
  proof
    assume "r \<in> set rows1"
    with l1 have "r \<in> set (fst (category_loop ri nm d mock_categories g))" by simp
    from category_loop_rows [OF this] obtain c m g0 base' g1' noise' g2' where
      e: "c \<in> set mock_categories" "m \<in> set (dict_get mock_manufacturers c [])"
        "ri 1000 5000 g0 = (base', g1')" "nm 0 (float_lit 0.1) g1' = (noise', g2')"
        "r = mock_row base' noise' d c m"
      by blast
    have "d \<in> set (d # ds)" by simp
    with e show ?thesis by blast
  next
    assume "r \<in> set rows2"
    with l2 have "r \<in> set (fst (date_loop ri nm ds g1))" by simp
    from Cons.IH [OF this] obtain d' c m g0 base' g1' noise' g2' where
      "d' \<in> set ds" and e: "c \<in> set mock_categories"
        "m \<in> set (dict_get mock_manufacturers c [])"
        "ri 1000 5000 g0 = (base', g1')" "nm 0 (float_lit 0.1) g1' = (noise', g2')"
        "r = mock_row base' noise' d' c m"
      by blast
    then have "d' \<in> set (d # ds)" by simp
    with e show ?thesis by blast
  qed
qed

lemma mock_data_rows:
  "r \<in> set (mock_data ri nm g) \<Longrightarrow>
   \<exists>d c m g0 base g1 noise g2. d \<in> set mock_dates \<and> c \<in> set mock_categories \<and>
      m \<in> set (dict_get mock_manufacturers c []) \<and>
      ri 1000 5000 g0 = (base, g1) \<and> nm 0 (float_lit 0.1) g1 = (noise, g2) \<and> r = mock_row base noise d c m"
  unfolding mock_data_def by (rule date_loop_rows)

lemma manufacturer_loop_length:
  "length (fst (manufacturer_loop ri nm d c ms g)) = length ms"
  by (induction ms arbitrary: g) (simp_all add: split_beta)

lemma category_loop_length:
  "length (fst (category_loop ri nm d cs g)) =
   sum_list (map (\<lambda>c. length (dict_get mock_manufacturers c [])) cs)"
  by (induction cs arbitrary: g) (simp_all add: split_beta manufacturer_loop_length)

lemma mock_categories_rows:
  "sum_list (map (\<lambda>c. length (dict_get mock_manufacturers c [])) mock_categories) = 15"
  by (simp add: mock_categories_def mock_manufacturers_def dict_get_def)

lemma date_loop_length:
  "length (fst (date_loop ri nm ds g)) = 15 * length ds"
  by (induction ds arbitrary: g)
     (simp_all add: split_beta category_loop_length mock_categories_rows)

lemma mock_dates_length: "length mock_dates = 60"
  by code_simp

lemma mock_dates_first: "mock_dates = (2019, 1, 31) # tl mock_dates"
  by code_simp

lemma mock_data_length: "length (mock_data ri nm g) = 900"
  by (simp add: mock_data_def date_loop_length mock_dates_length)

lemma mock_data_nonempty: "mock_data ri nm g \<noteq> []"
  using mock_data_length [of ri nm g] by auto

lemma mock_data_hd:
  "hd (mock_data ri nm g) =
   mock_row (fst (ri 1000 5000 g)) (fst (nm 0 (float_lit 0.1) (snd (ri 1000 5000 g)))) (2019, 1, 31)
     ''2W'' ''Hero''"
proof -
  have "mock_data ri nm g = fst (date_loop ri nm ((2019, 1, 31) # tl mock_dates) g)"
    using mock_dates_first by (simp add: mock_data_def)
  then show ?thesis
    by (simp add: split_beta mock_categories_def mock_manufacturers_def dict_get_def)
qed

lemma clamp_truncation: "max 1000 (py_int x) = max 1000 \<lfloor>x\<rfloor>"
proof (cases "0 \<le> x")
  case True
  then show ?thesis by (simp add: py_int_def)
next
  case False
  then have "\<lceil>x\<rceil> \<le> 0" and "\<lfloor>x\<rfloor> \<le> 0" by (simp_all add: ceiling_le_iff floor_le_iff) 
  with False show ?thesis by (simp add: py_int_def)
qed

lemma floor_le_round: "\<lfloor>x\<rfloor> \<le> round (x::real)"
  by (simp add: round_def floor_mono)

lemma round_le_floor_Suc: "round (x::real) \<le> \<lfloor>x\<rfloor> + 1"
proof -
  have "\<lfloor>x + 1 / 2\<rfloor> \<le> \<lfloor>x + 1\<rfloor>" by (rule floor_mono) simp
  then show ?thesis by (simp add: round_def)
qed

lemma mock_row_registrations:
  "registrations (mock_row base noise d c m) =
   max 1000 \<lfloor>round64 (real_of_int base *
          round64 (round64 (round64 (1 + growth_of d) + seasonality_of d) + noise))\<rfloor>"
  by (simp add: mock_row_def mock_registrations_def clamp_truncation)

lemma mock_row_specified:
  "registrations (mock_row base noise d c m) \<le> registrations_as_specified base noise d \<and>
   registrations_as_specified base noise d \<le> registrations (mock_row base noise d c m) + 1"
proof -
  let ?x = "round64 (real_of_int base *
          round64 (round64 (round64 (1 + growth_of d) + seasonality_of d) + noise))"
  have "\<lfloor>?x\<rfloor> \<le> round ?x" "round ?x \<le> \<lfloor>?x\<rfloor> + 1"
    by (rule floor_le_round, rule round_le_floor_Suc)
  then show ?thesis
    unfolding mock_row_registrations registrations_as_specified_def by linarith
qed

lemma np_pi_float: "round64 np_pi = np_pi"
  by (rule round64_dyadic [of 1 _ 7074237752028440]) (simp_all add: np_pi_def pow2_def)

lemma float_lit_15: "float_lit 0.15 = 5404319552844595 / 2 ^ 55"
  using round64_normal [of "- 3" "0.15"]
  by (simp add: float_lit_def pow2_def round_half_even_def)

lemma growth_2019: "date_year d = 2019 \<Longrightarrow> growth_of d = 0"
  by (simp add: growth_of_def round64_0)

lemma seasonality_january: "date_month d = 1 \<Longrightarrow> seasonality_of d = 0"
  by (simp add: seasonality_of_def np_sin_def round64_0)

lemma january_2019_product:
  "round64 (real_of_int base *
     round64 (round64 (round64 (1 + growth_of (2019, 1, 31)) + seasonality_of (2019, 1, 31))
              + noise)) =
   round64 (real_of_int base * round64 (1 + noise))"
  by (simp add: growth_2019 seasonality_january date_year_def date_month_def round64_1)

lemma january_2019_registrations:
  "mock_registrations base noise (2019, 1, 31) =
   py_int (round64 (real_of_int base * round64 (1 + noise)))"
  by (simp add: mock_registrations_def january_2019_product)

lemma mock_data_hd_in: "hd (mock_data ri nm g) \<in> set (mock_data ri nm g)"
  using mock_data_nonempty [of ri nm g] by simp

lemma load_data_None: "load_data None ri nm g = mock_data ri nm g"
  by (simp add: load_data_def)

text \<open>
  C4: every row of a generated dataset (the table \<^verbatim>\<open>load_data\<close> builds when the file cannot
  be read) has \<open>registrations\<close> at least 1000. The dataset has 900 rows, whatever is drawn.
\<close>

theorem generated_registrations_at_least_1000:
  assumes "r \<in> set (load_data None ri nm g)"
  shows "1000 \<le> registrations r \<and> length (load_data None ri nm g) = 900"
proof -
  from assms have "r \<in> set (mock_data ri nm g)" by (simp add: load_data_None)
  from mock_data_rows [OF this] obtain d c m base noise where "r = mock_row base noise d c m"
    by blast
  then have "1000 \<le> registrations r" by (simp add: mock_row_def)
  then show ?thesis by (simp add: load_data_None mock_data_length)
qed

lemma clamped_first_row:
  "hd (mock_data replay_randint replay_normal ([1000], [- 5 / 100])) =
   mock_row 1000 (- 5 / 100) (2019, 1, 31) ''2W'' ''Hero''"
  by (simp add: mock_data_hd replay_randint_def replay_normal_def)

lemma clamped_first_row_value:
  "mock_registrations 1000 (- 5 / 100) (2019, 1, 31) = 950"
proof -
  have 1: "round64 (1 + - 5 / 100) = 8556839292003942 / 2 ^ 53"
    using round64_normal [of "- 1" "1 + - 5 / 100"]
    by (simp add: pow2_def round_half_even_def)
  have 2: "round64 (real_of_int 1000 * (8556839292003942 / 2 ^ 53)) = 950"
    using round64_normal [of 9 "real_of_int 1000 * (8556839292003942 / 2 ^ 53)"]
    by (simp add: pow2_def round_half_even_def)
  show ?thesis by (simp only: january_2019_registrations 1 2) (simp add: py_int_def)
qed

theorem generated_registrations_at_least_1000_witness:
  "mock_row 1000 (- 5 / 100) (2019, 1, 31) ''2W'' ''Hero''
     \<in> set (load_data None replay_randint replay_normal ([1000], [- 5 / 100])) \<and>
   mock_registrations 1000 (- 5 / 100) (2019, 1, 31) = 950 \<and>
   1000 \<le> registrations (mock_row 1000 (- 5 / 100) (2019, 1, 31) ''2W'' ''Hero'') \<and>
   length (load_data None replay_randint replay_normal ([1000], [- 5 / 100])) = 900"
proof -
  have m: "mock_row 1000 (- 5 / 100) (2019, 1, 31) ''2W'' ''Hero''
     \<in> set (load_data None replay_randint replay_normal ([1000], [- 5 / 100]))"
    using mock_data_hd_in [of replay_randint replay_normal "([1000], [- 5 / 100])"]
    by (simp only: clamped_first_row load_data_None)
  from generated_registrations_at_least_1000 [OF m] m clamped_first_row_value
  show ?thesis by blast
qed

text \<open>
  C8: in a generated dataset the manufacturer of every row is one of the manufacturers that
  the dictionary of line 16 lists for the category of the row: Hero, Honda, Bajaj, TVS or
  Royal Enfield for 2W; Bajaj, Mahindra, Piaggio or TVS for 3W; Maruti, Hyundai, Tata,
  Mahindra, Kia or Toyota for 4W.
\<close>

theorem generated_manufacturer_of_category:
  assumes "r \<in> set (load_data None ri nm g)"
  shows "manufacturer r \<in> set (dict_get mock_manufacturers (category r) []) \<and>
    (category r = ''2W'' \<and>
       manufacturer r \<in> {''Hero'', ''Honda'', ''Bajaj'', ''TVS'', ''Royal Enfield''} \<or>
     category r = ''3W'' \<and>
       manufacturer r \<in> {''Bajaj'', ''Mahindra'', ''Piaggio'', ''TVS''} \<or>
     category r = ''4W'' \<and>
       manufacturer r \<in> {''Maruti'', ''Hyundai'', ''Tata'', ''Mahindra'', ''Kia'', ''Toyota''})"
proof -
  from assms have "r \<in> set (mock_data ri nm g)" by (simp add: load_data_None)
  from mock_data_rows [OF this] obtain d c m base noise where
    c: "c \<in> set mock_categories" and m: "m \<in> set (dict_get mock_manufacturers c [])" and
    r: "r = mock_row base noise d c m"
    by blast
  from r have rc: "category r = c" and rm: "manufacturer r = m" by (simp_all add: mock_row_def)
  from c have "c = ''2W'' \<or> c = ''3W'' \<or> c = ''4W''" by (simp add: mock_categories_def)
  then have "c = ''2W'' \<and> m \<in> {''Hero'', ''Honda'', ''Bajaj'', ''TVS'', ''Royal Enfield''} \<or>
     c = ''3W'' \<and> m \<in> {''Bajaj'', ''Mahindra'', ''Piaggio'', ''TVS''} \<or>
     c = ''4W'' \<and> m \<in> {''Maruti'', ''Hyundai'', ''Tata'', ''Mahindra'', ''Kia'', ''Toyota''}"
    using m by (elim disjE) (simp_all add: mock_manufacturers_def dict_get_def)
  with m rc rm show ?thesis by simp
qed

lemma default_first_row:
  "hd (mock_data replay_randint replay_normal ([], [])) =
   mock_row 1000 0 (2019, 1, 31) ''2W'' ''Hero''"
  by (simp add: mock_data_hd replay_randint_def replay_normal_def)

theorem generated_manufacturer_of_category_witness:
  "mock_row 1000 0 (2019, 1, 31) ''2W'' ''Hero''
     \<in> set (load_data None replay_randint replay_normal ([], [])) \<and>
   category (mock_row 1000 0 (2019, 1, 31) ''2W'' ''Hero'') = ''2W'' \<and>
   manufacturer (mock_row 1000 0 (2019, 1, 31) ''2W'' ''Hero'')
     \<in> {''Hero'', ''Honda'', ''Bajaj'', ''TVS'', ''Royal Enfield''}"
proof -
  have m: "mock_row 1000 0 (2019, 1, 31) ''2W'' ''Hero''
     \<in> set (load_data None replay_randint replay_normal ([], []))"
    using mock_data_hd_in [of replay_randint replay_normal "([], [])"]
    by (simp only: default_first_row load_data_None)
  have c: "category (mock_row 1000 0 (2019, 1, 31) ''2W'' ''Hero'') = ''2W''"
    by (simp add: mock_row_def)
  from generated_manufacturer_of_category [OF m] c
  have "manufacturer (mock_row 1000 0 (2019, 1, 31) ''2W'' ''Hero'')
     \<in> {''Hero'', ''Honda'', ''Bajaj'', ''TVS'', ''Royal Enfield''}"
    by simp
  with m c show ?thesis by blast
qed

lemma float_lit_minus_13: "float_lit (- 0.13) = - (4683743612465316 / 2 ^ 55)"
  using round64_normal [of "- 3" "- 0.13"]
  by (simp add: float_lit_def pow2_def round_half_even_def)

lemma truncated_example: "mock_registrations 2000 (1 / 2048) (2019, 1, 31) = 2000"
proof -
  have 1: "round64 (1 + 1 / 2048) = 2049 / 2048"
    using round64_normal [of 0 "1 + 1 / 2048"]
    by (simp add: pow2_def round_half_even_def)
  have 2: "round64 (real_of_int 2000 * (2049 / 2048)) = 512250 / 256"
    using round64_normal [of 10 "real_of_int 2000 * (2049 / 2048)"]
    by (simp add: pow2_def round_half_even_def)
  show ?thesis by (simp only: january_2019_registrations 1 2) (simp add: py_int_def)
qed

lemma rounded_example: "registrations_as_specified 2000 (1 / 2048) (2019, 1, 31) = 2001"
proof -
  have 1: "round64 (1 + 1 / 2048) = 2049 / 2048"
    using round64_normal [of 0 "1 + 1 / 2048"]
    by (simp add: pow2_def round_half_even_def)
  have 2: "round64 (real_of_int 2000 * (2049 / 2048)) = 512250 / 256"
    using round64_normal [of 10 "real_of_int 2000 * (2049 / 2048)"]
    by (simp add: pow2_def round_half_even_def)
  show ?thesis
    by (simp only: registrations_as_specified_def january_2019_product 1 2)
       (simp add: round_def)
qed

lemma float_product_example:
  "mock_registrations 1500 (float_lit (- 0.13)) (2019, 1, 31) = 1305"
proof -
  have 1: "round64 (1 + - (4683743612465316 / 2 ^ 55)) = 7836263351624663 / 2 ^ 53"
    using round64_normal [of "- 1" "1 + - (4683743612465316 / 2 ^ 55)"]
    by (simp add: pow2_def round_half_even_def)
  have 2: "round64 (real_of_int 1500 * (7836263351624663 / 2 ^ 53)) = 1305"
    using round64_normal [of 10 "real_of_int 1500 * (7836263351624663 / 2 ^ 53)"]
    by (simp add: pow2_def round_half_even_def)
  show ?thesis
    by (simp only: january_2019_registrations float_lit_minus_13 1 2) (simp add: py_int_def)
qed

text \<open>
  C3, as stated: \<open>registrations\<close> is the maximum of 1000 and the product
  \<open>base * (1 + growth + seasonality + noise)\<close> rounded to the nearest integer. The source
  converts with \<^verbatim>\<open>int\<close>, which drops the fraction. With the draws \<open>base = 2000\<close> and
  \<open>noise = 1 / 2048\<close> the first generated row (January 2019, growth 0, seasonality 0) has the
  product 2000.9765625, which no operation rounds: the row holds 2000, the rounded formula
  gives 2001.
\<close>

theorem rounded_registrations_counterexample:
  "hd (load_data None replay_randint replay_normal ([2000], [1 / 2048]))
     \<in> set (load_data None replay_randint replay_normal ([2000], [1 / 2048])) \<and>
   replay_randint 1000 5000 ([2000], [1 / 2048]) = (2000, ([], [1 / 2048])) \<and>
   replay_normal 0 (float_lit 0.1) ([], [1 / 2048]) = (1 / 2048, ([], [])) \<and>
   date (hd (load_data None replay_randint replay_normal ([2000], [1 / 2048]))) = (2019, 1, 31) \<and>
   registrations (hd (load_data None replay_randint replay_normal ([2000], [1 / 2048]))) = 2000 \<and>
   registrations_as_specified 2000 (1 / 2048) (2019, 1, 31) = 2001"
proof -
  let ?g = "([2000], [1 / 2048]) :: int list \<times> real list"
  have h: "hd (mock_data replay_randint replay_normal ?g) =
     mock_row 2000 (1 / 2048) (2019, 1, 31) ''2W'' ''Hero''"
    by (simp add: mock_data_hd replay_randint_def replay_normal_def)
  note t = truncated_example
  note rounded_example
  moreover have "replay_randint 1000 5000 ?g = (2000, ([], [1 / 2048]))"
    by (simp add: replay_randint_def)
  moreover have "replay_normal 0 (float_lit 0.1) ([], [1 / 2048]) = (1 / 2048, ([], []))"
    by (simp add: replay_normal_def)
  moreover have "date (hd (load_data None replay_randint replay_normal ?g)) = (2019, 1, 31)"
    unfolding load_data_None h by (simp add: mock_row_def)
  moreover have "registrations (hd (load_data None replay_randint replay_normal ?g)) = 2000"
    unfolding load_data_None h using t by (simp add: mock_row_def)
  moreover have "hd (load_data None replay_randint replay_normal ?g)
     \<in> set (load_data None replay_randint replay_normal ?g)"
    unfolding load_data_None by (rule mock_data_hd_in)
  ultimately show ?thesis by blast
qed

text \<open>
  C3, amended: every row of a generated dataset holds the maximum of 1000 and the float
  product \<open>base * (1 + growth + seasonality + noise)\<close> with its fraction dropped (\<^verbatim>\<open>int\<close>
  truncates toward zero, which under the clamp is the floor), where \<open>base\<close> is a draw of
  \<^verbatim>\<open>randint(1000, 5000)\<close>, \<open>noise\<close> the following draw of \<^verbatim>\<open>normal(0, 0.1)\<close>, growth and
  seasonality are those of the date of the row, and the three additions and the
  multiplication each round to the nearest float. The value is the rounded one or one
  less.
\<close>

theorem generated_registrations_truncated:
  assumes "r \<in> set (load_data None ri nm g)"
  shows "\<exists>g0 base g1 noise g2.
     ri 1000 5000 g0 = (base, g1) \<and> nm 0 (float_lit 0.1) g1 = (noise, g2) \<and>
     registrations r =
       max 1000 (py_int (round64 (real_of_int base *
          round64 (round64 (round64 (1 + growth_of (date r)) + seasonality_of (date r))
                   + noise)))) \<and>
     registrations r =
       max 1000 \<lfloor>round64 (real_of_int base *
          round64 (round64 (round64 (1 + growth_of (date r)) + seasonality_of (date r))
                   + noise))\<rfloor> \<and>
     registrations r \<le> registrations_as_specified base noise (date r) \<and>
     registrations_as_specified base noise (date r) \<le> registrations r + 1"
proof -
  from assms have "r \<in> set (mock_data ri nm g)" by (simp add: load_data_None)
  from mock_data_rows [OF this] obtain d c m g0 base g1 noise g2 where
    b: "ri 1000 5000 g0 = (base, g1)" and n: "nm 0 (float_lit 0.1) g1 = (noise, g2)" and
    r: "r = mock_row base noise d c m"
    by blast
  from r have d: "date r = d" by (simp add: mock_row_def)
  have 1: "registrations r =
       max 1000 (py_int (round64 (real_of_int base *
          round64 (round64 (round64 (1 + growth_of (date r)) + seasonality_of (date r))
                   + noise))))"
    unfolding d unfolding r by (simp add: mock_row_def mock_registrations_def)
  have 2: "registrations r =
       max 1000 \<lfloor>round64 (real_of_int base *
          round64 (round64 (round64 (1 + growth_of (date r)) + seasonality_of (date r))
                   + noise))\<rfloor>"
    unfolding d unfolding r by (rule mock_row_registrations)
  have 3: "registrations r \<le> registrations_as_specified base noise (date r) \<and>
     registrations_as_specified base noise (date r) \<le> registrations r + 1"
    unfolding d unfolding r by (rule mock_row_specified)
  from b n 1 2 3 show ?thesis by blast
qed

lemma float_product_first_row:
  "hd (mock_data replay_randint replay_normal ([1500], [float_lit (- 0.13)])) =
   mock_row 1500 (float_lit (- 0.13)) (2019, 1, 31) ''2W'' ''Hero''"
  by (simp add: mock_data_hd replay_randint_def replay_normal_def)

theorem generated_registrations_truncated_witness:
  "hd (load_data None replay_randint replay_normal ([1500], [float_lit (- 0.13)]))
     \<in> set (load_data None replay_randint replay_normal ([1500], [float_lit (- 0.13)])) \<and>
   (\<exists>g0 base g1 noise g2.
     replay_randint 1000 5000 g0 = (base, g1) \<and>
     replay_normal 0 (float_lit 0.1) g1 = (noise, g2) \<and>
     registrations (hd (load_data None replay_randint replay_normal
          ([1500], [float_lit (- 0.13)]))) =
       max 1000 (py_int (round64 (real_of_int base *
         round64 (round64 (round64 (1 +
            growth_of (date (hd (load_data None replay_randint replay_normal
                ([1500], [float_lit (- 0.13)]))))) +
            seasonality_of (date (hd (load_data None replay_randint replay_normal
                ([1500], [float_lit (- 0.13)])))))
          + noise))))) \<and>
   registrations (hd (load_data None replay_randint replay_normal
          ([1500], [float_lit (- 0.13)]))) = 1305"
proof -
  let ?g = "([1500], [float_lit (- 0.13)]) :: int list \<times> real list"
  have m: "hd (load_data None replay_randint replay_normal ?g)
     \<in> set (load_data None replay_randint replay_normal ?g)"
    unfolding load_data_None by (rule mock_data_hd_in)
  have v: "registrations (hd (load_data None replay_randint replay_normal ?g)) = 1305"
    unfolding load_data_None float_product_first_row
    using float_product_example by (simp add: mock_row_def)
  from generated_registrations_truncated [OF m] m v show ?thesis by blast
qed

end
